theory Spec2Isabelle
  imports Main "HOL-Library.Word"
begin

section \<open>Data model\<close>

text \<open>
  The status codes of \<^verbatim>\<open>error::\<close> that the channel and the session name, and one
  constructor for every other error code. A \<^verbatim>\<open>code\<close> converts to \<^verbatim>\<open>true\<close> in
  \<^verbatim>\<open>if (ec)\<close> exactly when it is not \<^verbatim>\<open>error::success\<close>.
\<close>

datatype code =
    error_success
  | error_operation_failed
  | error_service_stopped
  | error_channel_stopped
  | error_channel_timeout
  | error_address_in_use
  | error_other nat

definition failed :: "code \<Rightarrow> bool" where
  "failed ec = (ec \<noteq> error_success)"

text \<open>
  A \<^verbatim>\<open>channel::ptr\<close> is a shared pointer; the model addresses channels by number
  in a store of channels.
\<close>

type_synonym chan_id = nat

text \<open>
  A \<^verbatim>\<open>result_handler\<close> is a closure. \<open>Caller n\<close> is a handler supplied from
  outside (its call is recorded, it is opaque otherwise); every other constructor is one
  of the \<^verbatim>\<open>std::bind\<close> / \<^verbatim>\<open>BINDn\<close> closures that channel.cpp and session.cpp build,
  holding the arguments that were bound.
\<close>

datatype handler =
    Caller nat
  | Bind_do_start chan_id handler
  | Bind_handle_expiration chan_id
  | Bind_handle_inactivity chan_id
  | Bind_handle_stop
  | Bind_handle_starting chan_id handler
  | Bind_handle_handshake chan_id handler
  | Bind_handle_start chan_id handler handler
  | Bind_handle_remove chan_id handler

datatype timer = Expiration | Inactivity

datatype variant = Protocol_version_31402 | Protocol_version_70002

text \<open>
  What a run does to the outside, in order: calls of caller-supplied handlers and calls
  into the collaborators (transport, timers, registry, handshake protocols).
\<close>

datatype event =
    Invoked nat code
  | Proxy_start chan_id code
  | Proxy_stop chan_id code
  | Proxy_subscribe_stop chan_id handler
  | Timer_start timer chan_id
  | Timer_stop timer chan_id
  | Network_subscribe_stop handler
  | Network_store chan_id code
  | Network_remove chan_id
  | Attach variant chan_id
  | Protocol_start variant chan_id handler

text \<open>
  Modelled from the spec: the Deadline Timer (the \<^verbatim>\<open>deadline\<close> class is not among the
  sources). A timer has the duration it was constructed with; \<^verbatim>\<open>start\<close> arms it, one
  shot, with a completion handler, and \<^verbatim>\<open>stop\<close> cancels a pending wait. \<open>wait\<close>
  is \<open>None\<close> when nothing is pending, and otherwise the time the wait ends at and
  the handler it completes.
\<close>

record deadline =
  duration :: nat
  wait :: "(nat \<times> handler) option"

definition deadline_start :: "nat \<Rightarrow> handler \<Rightarrow> deadline \<Rightarrow> deadline" where
  "deadline_start now h d = d\<lparr>wait := Some (now + duration d, h)\<rparr>"

definition deadline_stop :: "deadline \<Rightarrow> deadline" where
  "deadline_stop d = d\<lparr>wait := None\<rparr>"

definition running :: "deadline \<Rightarrow> bool" where
  "running d = (wait d \<noteq> None)"

text \<open>
  \<^verbatim>\<open>config::authority\<close>: an IP address (the sixteen bytes of an IPv6 address) and a
  port.
\<close>

record authority =
  ip :: "128 word"
  port :: "16 word"

record settings =
  channel_expiration :: nat
  channel_inactivity :: nat
  blacklists :: "authority list"

text \<open>
  A member \<^verbatim>\<open>x_\<close> of a class is the field \<open>m_x\<close> of its record.
  Of the base class \<^verbatim>\<open>proxy\<close> (proxy.cpp is not among the sources), the state that
  channel.cpp and session.cpp read: the stopped flag, the stop subscribers, the
  negotiated version and the authority.
\<close>

record proxy =
  m_proxy_stopped :: bool
  m_stop_subscriber :: "handler list"
  m_negotiated_version :: "32 word"
  m_authority :: authority

text \<open>
  \<^verbatim>\<open>class channel : public proxy\<close>, with the members \<^verbatim>\<open>notify_\<close>, \<^verbatim>\<open>nonce_\<close>,
  \<^verbatim>\<open>peer_version_\<close>, \<^verbatim>\<open>expiration_\<close> and \<^verbatim>\<open>inactivity_\<close>.
\<close>

record channel = proxy +
  m_notify :: bool
  m_nonce :: "64 word"
  m_peer_version :: "nat option"
  m_expiration :: deadline
  m_inactivity :: deadline

record session =
  m_stopped :: bool
  m_notify_on_connect :: bool
  m_settings :: settings

text \<open>
  The state of a run: the clock, the random generator (the values it will return and
  how many were drawn), what the transport of each channel will answer to a start, the
  session, the channels, the registry \<^verbatim>\<open>network_\<close> (its stop subscribers and its
  admitted channels), the work relayed for later delivery, and the trace.
\<close>

record world =
  clock :: nat
  entropy :: "nat \<Rightarrow> nat"
  drawn :: nat
  transport :: "chan_id \<Rightarrow> code"
  the_session :: session
  channels :: "chan_id \<Rightarrow> channel"
  network_stop_subscribers :: "handler list"
  network_connections :: "chan_id list"
  relayed :: "(handler \<times> code) list"
  trace :: "event list"

definition emit :: "event \<Rightarrow> world \<Rightarrow> world" where
  "emit e w = w\<lparr>trace := trace w @ [e]\<rparr>"

definition update_channel :: "chan_id \<Rightarrow> (channel \<Rightarrow> channel) \<Rightarrow> world \<Rightarrow> world" where
  "update_channel c f w = w\<lparr>channels := (channels w)(c := f (channels w c))\<rparr>"

section \<open>channel.cpp\<close>

text \<open>
  Modelled from the spec: the constructor of \<^verbatim>\<open>proxy\<close> (proxy.cpp is not among the
  sources). A channel is created before its transport is enabled (created, starting,
  active, stopping, stopped; the timers wait until the transport confirms that it is
  enabled): the proxy is constructed stopped, with no stop subscriber, for the authority
  of its socket, its negotiated version the configured maximum.
\<close>

definition proxy_ctor :: "authority \<Rightarrow> 32 word \<Rightarrow> proxy" where
  "proxy_ctor a v =
     \<lparr>m_proxy_stopped = True, m_stop_subscriber = [], m_negotiated_version = v,
      m_authority = a\<rparr>"

text \<open>
  The constructor of \<^verbatim>\<open>channel\<close>: the base class, \<^verbatim>\<open>notify_(false)\<close>,
  \<^verbatim>\<open>nonce_(0)\<close>, and two timers made by \<^verbatim>\<open>alarm\<close> with a randomised duration (here
  an argument), not started.
\<close>

definition channel_ctor :: "authority \<Rightarrow> 32 word \<Rightarrow> nat \<Rightarrow> nat \<Rightarrow> channel" where
  "channel_ctor a v expiration_duration inactivity_duration =
     proxy.extend (proxy_ctor a v)
       (channel.fields False 0 None
         \<lparr>duration = expiration_duration, wait = None\<rparr>
         \<lparr>duration = inactivity_duration, wait = None\<rparr>)"

definition proxy_stopped :: "chan_id \<Rightarrow> world \<Rightarrow> bool" where
  "proxy_stopped c w = m_proxy_stopped (channels w c)"

definition notify :: "chan_id \<Rightarrow> world \<Rightarrow> bool" where
  "notify c w = m_notify (channels w c)"

definition set_notify :: "chan_id \<Rightarrow> bool \<Rightarrow> world \<Rightarrow> world" where
  "set_notify c v w = update_channel c (\<lambda>ch. ch\<lparr>m_notify := v\<rparr>) w"

definition nonce :: "chan_id \<Rightarrow> world \<Rightarrow> 64 word" where
  "nonce c w = m_nonce (channels w c)"

definition set_nonce :: "chan_id \<Rightarrow> 64 word \<Rightarrow> world \<Rightarrow> world" where
  "set_nonce c v w = update_channel c (\<lambda>ch. ch\<lparr>m_nonce := v\<rparr>) w"

text \<open>
  \<^verbatim>\<open>peer_version\<close> asserts that the version was set; \<open>None\<close> is the failed
  assertion.
\<close>

definition peer_version :: "chan_id \<Rightarrow> world \<Rightarrow> nat option" where
  "peer_version c w = m_peer_version (channels w c)"

definition set_peer_version :: "chan_id \<Rightarrow> nat \<Rightarrow> world \<Rightarrow> world" where
  "set_peer_version c v w = update_channel c (\<lambda>ch. ch\<lparr>m_peer_version := Some v\<rparr>) w"

text \<open>\<^verbatim>\<open>handle_stopping\<close>: \<^verbatim>\<open>expiration_->stop(); inactivity_->stop();\<close>\<close>

definition handle_stopping :: "chan_id \<Rightarrow> world \<Rightarrow> world" where
  "handle_stopping c w =
     emit (Timer_stop Inactivity c)
       (update_channel c (\<lambda>ch. ch\<lparr>m_inactivity := deadline_stop (m_inactivity ch)\<rparr>)
         (emit (Timer_stop Expiration c)
           (update_channel c (\<lambda>ch. ch\<lparr>m_expiration := deadline_stop (m_expiration ch)\<rparr>) w)))"

text \<open>
  Modelled from the spec: \<^verbatim>\<open>proxy::stop\<close> (proxy.cpp is not among the sources). The
  channel becomes stopped, its stop subscribers are notified of the stop with the code,
  later (the notification is relayed, not called in place) and are dropped, and the
  channel's \<^verbatim>\<open>handle_stopping\<close> is invoked.
\<close>

definition proxy_stop :: "chan_id \<Rightarrow> code \<Rightarrow> world \<Rightarrow> world" where
  "proxy_stop c ec w =
     handle_stopping c
       (update_channel c (\<lambda>ch. ch\<lparr>m_proxy_stopped := True, m_stop_subscriber := []\<rparr>)
         (emit (Proxy_stop c ec)
           (w\<lparr>relayed := relayed w @ map (\<lambda>h. (h, ec)) (m_stop_subscriber (channels w c))\<rparr>)))"

text \<open>
  Modelled from the spec: \<^verbatim>\<open>proxy::subscribe_stop\<close> (proxy.cpp is not among the
  sources): the handler joins the channel's stop subscribers.
\<close>

definition proxy_subscribe_stop :: "chan_id \<Rightarrow> handler \<Rightarrow> world \<Rightarrow> world" where
  "proxy_subscribe_stop c h w =
     emit (Proxy_subscribe_stop c h)
       (update_channel c (\<lambda>ch. ch\<lparr>m_stop_subscriber := m_stop_subscriber ch @ [h]\<rparr>) w)"

text \<open>\<^verbatim>\<open>channel::stopped(const code& ec)\<close>\<close>

definition channel_stopped :: "chan_id \<Rightarrow> code \<Rightarrow> world \<Rightarrow> bool" where
  "channel_stopped c ec w =
     (proxy_stopped c w \<or> ec = error_channel_stopped \<or> ec = error_service_stopped)"

text \<open>
  \<^verbatim>\<open>start_expiration\<close> and \<^verbatim>\<open>start_inactivity\<close> are two statements each: the test
  of \<^verbatim>\<open>proxy::stopped()\<close>, and the start of the timer with the bound handler
  (\<open>arm_expiration\<close>, \<open>arm_inactivity\<close>).
\<close>

definition arm_expiration :: "chan_id \<Rightarrow> world \<Rightarrow> world" where
  "arm_expiration c w =
     emit (Timer_start Expiration c)
       (update_channel c (\<lambda>ch. ch\<lparr>m_expiration :=
          deadline_start (clock w) (Bind_handle_expiration c) (m_expiration ch)\<rparr>) w)"

definition start_expiration :: "chan_id \<Rightarrow> world \<Rightarrow> world" where
  "start_expiration c w = (if proxy_stopped c w then w else arm_expiration c w)"

definition handle_expiration :: "chan_id \<Rightarrow> code \<Rightarrow> world \<Rightarrow> world" where
  "handle_expiration c ec w =
     (if channel_stopped c ec w then w else proxy_stop c error_channel_timeout w)"

definition arm_inactivity :: "chan_id \<Rightarrow> world \<Rightarrow> world" where
  "arm_inactivity c w =
     emit (Timer_start Inactivity c)
       (update_channel c (\<lambda>ch. ch\<lparr>m_inactivity :=
          deadline_start (clock w) (Bind_handle_inactivity c) (m_inactivity ch)\<rparr>) w)"

definition start_inactivity :: "chan_id \<Rightarrow> world \<Rightarrow> world" where
  "start_inactivity c w = (if proxy_stopped c w then w else arm_inactivity c w)"

definition handle_inactivity :: "chan_id \<Rightarrow> code \<Rightarrow> world \<Rightarrow> world" where
  "handle_inactivity c ec w =
     (if channel_stopped c ec w then w else proxy_stop c error_channel_timeout w)"

definition signal_activity :: "chan_id \<Rightarrow> world \<Rightarrow> world" where
  "signal_activity c w = start_inactivity c w"

section \<open>session.cpp\<close>

definition session_ctor :: "settings \<Rightarrow> bool \<Rightarrow> session" where
  "session_ctor s notify_on_connect =
     \<lparr>m_stopped = True, m_notify_on_connect = notify_on_connect, m_settings = s\<rparr>"

definition blacklisted :: "session \<Rightarrow> authority \<Rightarrow> bool" where
  "blacklisted s a = list_ex (\<lambda>blocked. ip a = ip blocked) (blacklists (m_settings s))"

definition session_stopped :: "world \<Rightarrow> bool" where
  "session_stopped w = m_stopped (the_session w)"

definition session_stopped_ec :: "code \<Rightarrow> world \<Rightarrow> bool" where
  "session_stopped_ec ec w = (session_stopped w \<or> ec = error_service_stopped)"

definition handle_stop :: "code \<Rightarrow> world \<Rightarrow> world" where
  "handle_stop ec w = w\<lparr>the_session := (the_session w)\<lparr>m_stopped := True\<rparr>\<rparr>"

text \<open>
  Modelled from the spec: the registry \<^verbatim>\<open>network_\<close> (p2p.cpp is not among the
  sources). \<^verbatim>\<open>subscribe_stop\<close> adds a subscriber of the node-wide stop signal;
  \<^verbatim>\<open>store\<close> admits a channel unless an admitted one has the same nonce or the same
  IP address; \<^verbatim>\<open>remove\<close> takes the channel out of the admitted set.
\<close>

definition subscribe_stop :: "handler \<Rightarrow> world \<Rightarrow> world" where
  "subscribe_stop h w =
     emit (Network_subscribe_stop h)
       (w\<lparr>network_stop_subscribers := network_stop_subscribers w @ [h]\<rparr>)"

definition network_store :: "chan_id \<Rightarrow> world \<Rightarrow> code \<times> world" where
  "network_store c w =
     (if list_ex (\<lambda>d. m_nonce (channels w d) = m_nonce (channels w c)
                     \<or> ip (m_authority (channels w d)) = ip (m_authority (channels w c)))
           (network_connections w)
      then (error_address_in_use, emit (Network_store c error_address_in_use) w)
      else (error_success,
            emit (Network_store c error_success)
              (w\<lparr>network_connections := network_connections w @ [c]\<rparr>)))"

definition network_remove :: "chan_id \<Rightarrow> world \<Rightarrow> world" where
  "network_remove c w =
     emit (Network_remove c) (w\<lparr>network_connections := removeAll c (network_connections w)\<rparr>)"

text \<open>
  \<^verbatim>\<open>message::version::level::bip61\<close>; the comment in
  \<^verbatim>\<open>attach_handshake_protocols\<close> gives its value.
\<close>

definition bip61 :: "32 word" where
  "bip61 = 70002"

text \<open>
  \<^verbatim>\<open>attach<P>(channel)->start(handler)\<close>: the protocol classes are not among the
  sources; attaching a protocol and starting it with the handler are recorded.
\<close>

definition attach_start :: "variant \<Rightarrow> chan_id \<Rightarrow> handler \<Rightarrow> world \<Rightarrow> world" where
  "attach_start p c h w = emit (Protocol_start p c h) (emit (Attach p c) w)"

definition attach_handshake_protocols :: "chan_id \<Rightarrow> handler \<Rightarrow> world \<Rightarrow> world" where
  "attach_handshake_protocols c handle_started w =
     (if m_negotiated_version (channels w c) \<ge> bip61
      then attach_start Protocol_version_70002 c handle_started w
      else attach_start Protocol_version_31402 c handle_started w)"

text \<open>
  Calling a handler, and the member functions that call the handlers they are given.
  A bound closure runs the member function it binds, on the bound arguments.
\<close>

function (sequential) invoke :: "handler \<Rightarrow> code \<Rightarrow> world \<Rightarrow> world"
  and do_start :: "code \<Rightarrow> chan_id \<Rightarrow> handler \<Rightarrow> world \<Rightarrow> world"
  and handle_starting :: "code \<Rightarrow> chan_id \<Rightarrow> handler \<Rightarrow> world \<Rightarrow> world"
  and handle_handshake :: "code \<Rightarrow> chan_id \<Rightarrow> handler \<Rightarrow> world \<Rightarrow> world"
  and handshake_complete :: "chan_id \<Rightarrow> handler \<Rightarrow> world \<Rightarrow> world"
  and handle_start :: "code \<Rightarrow> chan_id \<Rightarrow> handler \<Rightarrow> handler \<Rightarrow> world \<Rightarrow> world"
  and handle_remove :: "code \<Rightarrow> chan_id \<Rightarrow> handler \<Rightarrow> world \<Rightarrow> world"
where
  "invoke (Caller n) ec w = emit (Invoked n ec) w"
| "invoke (Bind_do_start c h) ec w = do_start ec c h w"
| "invoke (Bind_handle_expiration c) ec w = handle_expiration c ec w"
| "invoke (Bind_handle_inactivity c) ec w = handle_inactivity c ec w"
| "invoke Bind_handle_stop ec w = handle_stop ec w"
| "invoke (Bind_handle_starting c h) ec w = handle_starting ec c h w"
| "invoke (Bind_handle_handshake c h) ec w = handle_handshake ec c h w"
| "invoke (Bind_handle_start c hs hp) ec w = handle_start ec c hs hp w"
| "invoke (Bind_handle_remove c hp) ec w = handle_remove ec c hp w"
| "do_start ec c handler w =
     invoke handler error_success (start_inactivity c (start_expiration c w))"
| "handle_starting ec c handle_started w =
     (if failed ec then invoke handle_started ec w
      else attach_handshake_protocols c (Bind_handle_handshake c handle_started) w)"
| "handle_handshake ec c handle_started w =
     (if failed ec then invoke handle_started ec w
      else handshake_complete c handle_started w)"
| "handshake_complete c handle_started w =
     invoke handle_started (fst (network_store c w)) (snd (network_store c w))"
| "handle_start ec c handle_started handle_stopped w =
     invoke handle_started ec
       (if failed ec then invoke handle_stopped ec (proxy_stop c ec w)
        else proxy_subscribe_stop c (Bind_handle_remove c handle_stopped) w)"
| "handle_remove ec c handle_stopped w =
     invoke handle_stopped error_success (network_remove c w)"
  by pat_completeness auto

termination
  by (relation "measure (case_sum
        (case_sum (\<lambda>(h, ec, w). 3 * size h)
          (case_sum (\<lambda>(ec, c, h, w). 3 * size h + 1) (\<lambda>(ec, c, h, w). 3 * size h + 1)))
        (case_sum
          (case_sum (\<lambda>(ec, c, h, w). 3 * size h + 2) (\<lambda>(c, h, w). 3 * size h + 1))
          (case_sum (\<lambda>(ec, c, hs, hp, w). 3 * (size hs + size hp) + 1)
            (\<lambda>(ec, c, h, w). 3 * size h + 1))))")
     simp_all

text \<open>
  Modelled from the spec: \<^verbatim>\<open>proxy::start\<close> (proxy.cpp is not among the sources).
  The transport answers the start with a code, \<open>transport w c\<close>; when the code is
  success the transport is enabled (the channel is no longer stopped), otherwise its
  state is as it was; the handler is then called with the code.
\<close>

definition proxy_start :: "chan_id \<Rightarrow> handler \<Rightarrow> world \<Rightarrow> world" where
  "proxy_start c handler w =
     invoke handler (transport w c)
       (if failed (transport w c) then emit (Proxy_start c (transport w c)) w
        else update_channel c (\<lambda>ch. ch\<lparr>m_proxy_stopped := False\<rparr>)
               (emit (Proxy_start c (transport w c)) w))"

definition channel_start :: "chan_id \<Rightarrow> handler \<Rightarrow> world \<Rightarrow> world" where
  "channel_start c handler w = proxy_start c (Bind_do_start c handler) w"

text \<open>
  Modelled from the spec: \<^verbatim>\<open>pseudo_random::next(begin, end)\<close> (a library function,
  not among the sources), the source of the fresh random nonce: a value of the closed
  range from \<open>lo\<close> to \<open>hi\<close>, computed from the next value of the generator.
\<close>

definition pseudo_random_next :: "nat \<Rightarrow> nat \<Rightarrow> world \<Rightarrow> nat \<times> world" where
  "pseudo_random_next lo hi w =
     (lo + entropy w (drawn w) mod (hi - lo + 1), w\<lparr>drawn := Suc (drawn w)\<rparr>)"

definition max_uint64 :: nat where
  "max_uint64 = 2 ^ 64 - 1"

definition start_channel :: "chan_id \<Rightarrow> handler \<Rightarrow> world \<Rightarrow> world" where
  "start_channel c handle_started w =
     (let w1 = set_notify c (m_notify_on_connect (the_session w)) w;
          r = pseudo_random_next 1 max_uint64 w1;
          w2 = set_nonce c (of_nat (fst r)) (snd r)
      in channel_start c (Bind_handle_starting c handle_started) w2)"

definition register_channel :: "chan_id \<Rightarrow> handler \<Rightarrow> handler \<Rightarrow> world \<Rightarrow> world" where
  "register_channel c handle_started handle_stopped w =
     (if session_stopped w
      then invoke handle_stopped error_service_stopped
             (invoke handle_started error_service_stopped w)
      else start_channel c (Bind_handle_start c handle_started handle_stopped) w)"

definition session_start :: "handler \<Rightarrow> world \<Rightarrow> world" where
  "session_start handler w =
     (if \<not> session_stopped w then invoke handler error_operation_failed w
      else invoke handler error_success
             (subscribe_stop Bind_handle_stop
               (w\<lparr>the_session := (the_session w)\<lparr>m_stopped := False\<rparr>\<rparr>)))"

section \<open>Runs\<close>

text \<open>
  What is given when a run begins: the settings and the session's notify policy, and for
  every channel its authority, the configured maximum version, and the randomised
  durations of its two timers; the values of the random generator; the answers of the
  transports.
\<close>

record environment =
  env_settings :: settings
  env_notify_on_connect :: bool
  env_authority :: "chan_id \<Rightarrow> authority"
  env_version :: "chan_id \<Rightarrow> 32 word"
  env_expiration :: "chan_id \<Rightarrow> nat"
  env_inactivity :: "chan_id \<Rightarrow> nat"
  env_entropy :: "nat \<Rightarrow> nat"
  env_transport :: "chan_id \<Rightarrow> code"

definition initial_world :: "environment \<Rightarrow> world" where
  "initial_world e =
     \<lparr>clock = 0, entropy = env_entropy e, drawn = 0, transport = env_transport e,
      the_session = session_ctor (env_settings e) (env_notify_on_connect e),
      channels = (\<lambda>c. channel_ctor (env_authority e c) (env_version e c)
                          (env_expiration e c) (env_inactivity e c)),
      network_stop_subscribers = [], network_connections = [], relayed = [], trace = []\<rparr>"

text \<open>
  The operations that the session's users, the transport, the timers and the registry
  perform on a channel and on the session, one at a time. \<open>Call h ec\<close> is a
  collaborator completing a handler it holds (a handshake protocol, the node-wide stop
  signal, a timer reporting a cancelled wait); \<open>Expire\<close> is a timer whose wait has
  ended: the wait is no longer pending and its handler is called with success;
  \<open>Deliver\<close> delivers the oldest relayed stop notification; \<open>Tick\<close> lets time
  pass; \<open>Transport_answer\<close> fixes what a transport will answer to the next start.
\<close>

datatype action =
    Channel_start chan_id nat
  | Channel_stop chan_id code
  | Signal_activity chan_id
  | Set_notify chan_id bool
  | Set_nonce chan_id "64 word"
  | Set_peer_version chan_id nat
  | Call handler code
  | Expire timer chan_id
  | Deliver
  | Session_start nat
  | Register_channel chan_id nat nat
  | Tick nat
  | Transport_answer chan_id code

definition expire :: "timer \<Rightarrow> chan_id \<Rightarrow> world \<Rightarrow> world" where
  "expire t c w =
     (case t of
        Expiration \<Rightarrow>
          (case wait (m_expiration (channels w c)) of
             None \<Rightarrow> w
           | Some (at, h) \<Rightarrow>
               if at \<le> clock w
               then invoke h error_success
                      (update_channel c
                        (\<lambda>ch. ch\<lparr>m_expiration := deadline_stop (m_expiration ch)\<rparr>) w)
               else w)
      | Inactivity \<Rightarrow>
          (case wait (m_inactivity (channels w c)) of
             None \<Rightarrow> w
           | Some (at, h) \<Rightarrow>
               if at \<le> clock w
               then invoke h error_success
                      (update_channel c
                        (\<lambda>ch. ch\<lparr>m_inactivity := deadline_stop (m_inactivity ch)\<rparr>) w)
               else w))"

fun perform :: "action \<Rightarrow> world \<Rightarrow> world" where
  "perform (Channel_start c n) w = channel_start c (Caller n) w"
| "perform (Channel_stop c ec) w = proxy_stop c ec w"
| "perform (Signal_activity c) w = signal_activity c w"
| "perform (Set_notify c v) w = set_notify c v w"
| "perform (Set_nonce c v) w = set_nonce c v w"
| "perform (Set_peer_version c v) w = set_peer_version c v w"
| "perform (Call h ec) w = invoke h ec w"
| "perform (Expire t c) w = expire t c w"
| "perform Deliver w =
     (case relayed w of [] \<Rightarrow> w
      | (h, ec) # rest \<Rightarrow> invoke h ec (w\<lparr>relayed := rest\<rparr>))"
| "perform (Session_start n) w = session_start (Caller n) w"
| "perform (Register_channel c n m) w = register_channel c (Caller n) (Caller m) w"
| "perform (Tick d) w = w\<lparr>clock := clock w + d\<rparr>"
| "perform (Transport_answer c ec) w = w\<lparr>transport := (transport w)(c := ec)\<rparr>"

definition run :: "action list \<Rightarrow> world \<Rightarrow> world" where
  "run acts w = fold perform acts w"



text \<open>
  The invariant behind it: each timer of a channel has a pending wait exactly while the
  proxy is not stopped, and the wait completes the handler that the channel bound.
\<close>

definition timers_follow :: "chan_id \<Rightarrow> channel \<Rightarrow> bool" where
  "timers_follow c ch =
     (running (m_expiration ch) = (\<not> m_proxy_stopped ch)
      \<and> running (m_inactivity ch) = (\<not> m_proxy_stopped ch)
      \<and> (\<forall>at h. wait (m_expiration ch) = Some (at, h) \<longrightarrow> h = Bind_handle_expiration c)
      \<and> (\<forall>at h. wait (m_inactivity ch) = Some (at, h) \<longrightarrow> h = Bind_handle_inactivity c))"

definition all_follow :: "world \<Rightarrow> bool" where
  "all_follow w = (\<forall>c. timers_follow c (channels w c))"

subsection \<open>An example run\<close>

definition example_environment :: environment where
  "example_environment =
     \<lparr>env_settings = \<lparr>channel_expiration = 90, channel_inactivity = 30,
                       blacklists = [\<lparr>ip = 10, port = 8333\<rparr>, \<lparr>ip = 11, port = 18333\<rparr>]\<rparr>,
      env_notify_on_connect = True,
      env_authority = (\<lambda>c. \<lparr>ip = of_nat c + 20, port = 8333\<rparr>),
      env_version = (\<lambda>c. if c = 0 then 70002 else if c = 1 then 70001 else 70015),
      env_expiration = (\<lambda>c. 90),
      env_inactivity = (\<lambda>c. 30),
      env_entropy = (\<lambda>n. 2 ^ 64 - 2 + n),
      env_transport = (\<lambda>c. error_success)\<rparr>"

definition created_world :: world where
  "created_world = initial_world example_environment"

definition started_world :: world where
  "started_world = run [Channel_start 0 7, Tick 4] created_world"

definition refused_world :: world where
  "refused_world = run [Transport_answer 0 error_operation_failed] started_world"



section \<open>Effects of the primitive operations\<close>

lemmas prim_defs = emit_def update_channel_def proxy_stopped_def handle_stopping_def
  proxy_stop_def proxy_subscribe_stop_def start_expiration_def start_inactivity_def
  arm_expiration_def arm_inactivity_def deadline_start_def deadline_stop_def

lemmas example_defs = created_world_def started_world_def run_def
  initial_world_def example_environment_def channel_ctor_def proxy_ctor_def proxy.defs
  channel.defs session_ctor_def channel_start_def proxy_start_def failed_def

lemma proxy_stop_effect:
  "proxy_stop c ec w =
     w\<lparr>channels := (channels w)(c := (channels w c)
          \<lparr>m_proxy_stopped := True, m_stop_subscriber := [],
           m_expiration := (m_expiration (channels w c))\<lparr>wait := None\<rparr>,
           m_inactivity := (m_inactivity (channels w c))\<lparr>wait := None\<rparr>\<rparr>),
        relayed := relayed w @ map (\<lambda>h. (h, ec)) (m_stop_subscriber (channels w c)),
        trace := trace w @ [Proxy_stop c ec, Timer_stop Expiration c, Timer_stop Inactivity c]\<rparr>"
  by (simp add: prim_defs)

lemma start_timers_effect:
  "start_inactivity c (start_expiration c w) =
     (if m_proxy_stopped (channels w c) then w
      else w\<lparr>channels := (channels w)(c := (channels w c)
             \<lparr>m_expiration := deadline_start (clock w) (Bind_handle_expiration c)
                                (m_expiration (channels w c)),
              m_inactivity := deadline_start (clock w) (Bind_handle_inactivity c)
                                (m_inactivity (channels w c))\<rparr>),
            trace := trace w @ [Timer_start Expiration c, Timer_start Inactivity c]\<rparr>)"
  by (simp add: emit_def update_channel_def proxy_stopped_def start_expiration_def
      start_inactivity_def arm_expiration_def arm_inactivity_def)

section \<open>Properties\<close>

text \<open>
  Claim C1, as stated, fails. A channel is started and, four ticks later, started again;
  the transport answers the second start with \<^verbatim>\<open>operation_failed\<close>. \<^verbatim>\<open>do_start\<close>
  does not look at the code it is given: both timers are armed again (their waits move
  from 90 and 30 to 94 and 34) and the handler is called with \<^verbatim>\<open>success\<close>. The arming
  is not conditional on the outcome of the transport's start.
\<close>

theorem channel_start_ignores_transport_code:
  "transport refused_world 0 = error_operation_failed
   \<and> \<not> m_proxy_stopped (channels refused_world 0)
   \<and> clock refused_world = 4
   \<and> wait (m_expiration (channels refused_world 0)) = Some (90, Bind_handle_expiration 0)
   \<and> wait (m_inactivity (channels refused_world 0)) = Some (30, Bind_handle_inactivity 0)
   \<and> trace (channel_start 0 (Caller 8) refused_world) =
       trace refused_world @ [Proxy_start 0 error_operation_failed,
         Timer_start Expiration 0, Timer_start Inactivity 0, Invoked 8 error_success]
   \<and> wait (m_expiration (channels (channel_start 0 (Caller 8) refused_world) 0)) =
       Some (94, Bind_handle_expiration 0)
   \<and> wait (m_inactivity (channels (channel_start 0 (Caller 8) refused_world) 0)) =
       Some (34, Bind_handle_inactivity 0)
   \<and> trace (do_start error_operation_failed 0 (Caller 8) started_world) =
       trace started_world @ [Timer_start Expiration 0, Timer_start Inactivity 0,
         Invoked 8 error_success]"
  by (simp add: refused_world_def example_defs prim_defs)

text \<open>
  Claim C1, amended. \<^verbatim>\<open>channel::start(h)\<close> delegates to the transport's start with
  \<^verbatim>\<open>do_start\<close> bound as its completion. When the transport answers with success, the
  transport is enabled, then both timers are armed, then \<open>h\<close> is called with success.
  Whatever code \<^verbatim>\<open>do_start\<close> is given, it arms both timers exactly when the proxy is
  not stopped at that moment, and it calls \<open>h\<close> with success in every case.
\<close>

theorem channel_start_arms_timers:
  "(transport w c = error_success \<longrightarrow>
      channel_start c h w =
        invoke h error_success
          (w\<lparr>channels := (channels w)(c := (channels w c)
               \<lparr>m_proxy_stopped := False,
                m_expiration := deadline_start (clock w) (Bind_handle_expiration c)
                                  (m_expiration (channels w c)),
                m_inactivity := deadline_start (clock w) (Bind_handle_inactivity c)
                                  (m_inactivity (channels w c))\<rparr>),
             trace := trace w @ [Proxy_start c error_success, Timer_start Expiration c,
                                 Timer_start Inactivity c]\<rparr>))
   \<and> (failed (transport w c) \<longrightarrow>
      channel_start c h w =
        do_start (transport w c) c h (emit (Proxy_start c (transport w c)) w))
   \<and> do_start ec c h w =
        invoke h error_success
          (if m_proxy_stopped (channels w c) then w
           else w\<lparr>channels := (channels w)(c := (channels w c)
               \<lparr>m_expiration := deadline_start (clock w) (Bind_handle_expiration c)
                                  (m_expiration (channels w c)),
                m_inactivity := deadline_start (clock w) (Bind_handle_inactivity c)
                                  (m_inactivity (channels w c))\<rparr>),
             trace := trace w @ [Timer_start Expiration c, Timer_start Inactivity c]\<rparr>)"
  by (simp add: channel_start_def proxy_start_def failed_def start_timers_effect
      emit_def update_channel_def)

text \<open>The amended statement at the first start of channel 0 and at its refused second start.\<close>

theorem channel_start_arms_timers_witness:
  "transport created_world 0 = error_success
   \<and> trace (channel_start 0 (Caller 7) created_world) =
       [Proxy_start 0 error_success, Timer_start Expiration 0, Timer_start Inactivity 0,
        Invoked 7 error_success]
   \<and> running (m_expiration (channels (channel_start 0 (Caller 7) created_world) 0))
   \<and> running (m_inactivity (channels (channel_start 0 (Caller 7) created_world) 0))
   \<and> failed (transport refused_world 0)
   \<and> channel_start 0 (Caller 8) refused_world =
       do_start error_operation_failed 0 (Caller 8)
         (emit (Proxy_start 0 error_operation_failed) refused_world)"
  using channel_start_arms_timers [of created_world 0 "Caller 7"]
    channel_start_arms_timers [of refused_world 0 "Caller 8"]
  by (simp add: refused_world_def example_defs prim_defs running_def)

text \<open>
  Claim C2. \<^verbatim>\<open>handle_start(ec, channel, handle_started, handle_stopped)\<close>: when
  \<open>ec\<close> is an error the channel is stopped with \<open>ec\<close>, then \<^verbatim>\<open>handle_stopped(ec)\<close>
  is called; when \<open>ec\<close> is success \<^verbatim>\<open>handle_remove\<close>, bound to the channel and to
  \<^verbatim>\<open>handle_stopped\<close>, joins the channel's stop subscribers and \<^verbatim>\<open>handle_stopped\<close> is
  not called; in both cases \<^verbatim>\<open>handle_started(ec)\<close> is called once, last.
\<close>

theorem handle_start_closes_registration:
  "(failed ec \<longrightarrow>
      handle_start ec c (Caller a) (Caller b) w =
        (proxy_stop c ec w)\<lparr>trace := trace w @ [Proxy_stop c ec, Timer_stop Expiration c,
           Timer_stop Inactivity c, Invoked b ec, Invoked a ec]\<rparr>)
   \<and> (\<not> failed ec \<longrightarrow>
      handle_start ec c (Caller a) (Caller b) w =
        w\<lparr>channels := (channels w)(c := (channels w c)
             \<lparr>m_stop_subscriber :=
                m_stop_subscriber (channels w c) @ [Bind_handle_remove c (Caller b)]\<rparr>),
           trace := trace w @ [Proxy_subscribe_stop c (Bind_handle_remove c (Caller b)),
                               Invoked a ec]\<rparr>)"
  by (simp add: proxy_stop_effect proxy_subscribe_stop_def emit_def update_channel_def)

text \<open>Both branches on the started channel 0.\<close>

theorem handle_start_closes_registration_witness:
  "failed error_channel_timeout
   \<and> trace (handle_start error_channel_timeout 0 (Caller 1) (Caller 2) started_world) =
       trace started_world @ [Proxy_stop 0 error_channel_timeout, Timer_stop Expiration 0,
         Timer_stop Inactivity 0, Invoked 2 error_channel_timeout,
         Invoked 1 error_channel_timeout]
   \<and> m_proxy_stopped
        (channels (handle_start error_channel_timeout 0 (Caller 1) (Caller 2) started_world) 0)
   \<and> \<not> failed error_success
   \<and> trace (handle_start error_success 0 (Caller 1) (Caller 2) started_world) =
       trace started_world @ [Proxy_subscribe_stop 0 (Bind_handle_remove 0 (Caller 2)),
         Invoked 1 error_success]
   \<and> m_stop_subscriber
        (channels (handle_start error_success 0 (Caller 1) (Caller 2) started_world) 0) =
       [Bind_handle_remove 0 (Caller 2)]"
  using handle_start_closes_registration [of error_channel_timeout 0 1 2 started_world]
    handle_start_closes_registration [of error_success 0 1 2 started_world]
  by (simp add: example_defs prim_defs)

text \<open>
  Claim C3. On a stopped session \<^verbatim>\<open>register_channel\<close> calls
  \<^verbatim>\<open>handle_started(service_stopped)\<close>, then \<^verbatim>\<open>handle_stopped(service_stopped)\<close>, once
  each, and does nothing else: no channel, timer or registry state changes and no stage
  of the pipeline is entered.
\<close>

theorem register_channel_on_stopped_session:
  "session_stopped w \<Longrightarrow>
   register_channel c (Caller a) (Caller b) w =
     w\<lparr>trace := trace w @ [Invoked a error_service_stopped, Invoked b error_service_stopped]\<rparr>"
  by (simp add: register_channel_def emit_def)

text \<open>The session of the example has not been started.\<close>

theorem register_channel_on_stopped_session_witness:
  "session_stopped started_world
   \<and> register_channel 1 (Caller 5) (Caller 6) started_world =
       started_world\<lparr>trace := trace started_world @
          [Invoked 5 error_service_stopped, Invoked 6 error_service_stopped]\<rparr>
   \<and> channels (register_channel 1 (Caller 5) (Caller 6) started_world) = channels started_world
   \<and> \<not> running (m_expiration (channels (register_channel 1 (Caller 5) (Caller 6) started_world) 1))
   \<and> \<not> running (m_inactivity (channels (register_channel 1 (Caller 5) (Caller 6) started_world) 1))"
proof -
  have s: "session_stopped started_world"
    by (simp add: session_stopped_def example_defs prim_defs)
  show ?thesis
    using s register_channel_on_stopped_session [OF s, of 1 5 6]
    by (simp add: example_defs prim_defs running_def)
qed

subsection \<open>The timers follow the transport\<close>

lemma all_follow_emit [simp]: "all_follow (emit e w) = all_follow w"
  by (simp add: all_follow_def emit_def)


























text \<open>
  Claim C5. \<^verbatim>\<open>channel::stopped(ec)\<close> holds exactly when the proxy is stopped or
  \<open>ec\<close> is \<^verbatim>\<open>channel_stopped\<close> or \<^verbatim>\<open>service_stopped\<close>; when it holds,
  \<^verbatim>\<open>handle_expiration(ec)\<close> and \<^verbatim>\<open>handle_inactivity(ec)\<close> change nothing and do not
  stop the channel; otherwise each stops the channel with \<^verbatim>\<open>channel_timeout\<close>.
\<close>

theorem timer_handlers_guarded:
  "(channel_stopped c ec w \<longleftrightarrow>
      m_proxy_stopped (channels w c) \<or> ec = error_channel_stopped \<or> ec = error_service_stopped)
   \<and> (channel_stopped c ec w \<longrightarrow>
        handle_expiration c ec w = w \<and> handle_inactivity c ec w = w)
   \<and> (\<not> channel_stopped c ec w \<longrightarrow>
        handle_expiration c ec w = proxy_stop c error_channel_timeout w
      \<and> handle_inactivity c ec w = proxy_stop c error_channel_timeout w
      \<and> trace (proxy_stop c error_channel_timeout w) =
          trace w @ [Proxy_stop c error_channel_timeout, Timer_stop Expiration c,
                     Timer_stop Inactivity c])"
  by (simp add: channel_stopped_def handle_expiration_def handle_inactivity_def
      proxy_stopped_def proxy_stop_effect)

text \<open>
  Channel 1 was never started; channel 0 is running, and is told of a cancelled wait, of
  the service's stop, and of an expired wait.
\<close>

theorem timer_handlers_guarded_witness:
  "channel_stopped 1 error_success started_world
   \<and> handle_expiration 1 error_success started_world = started_world
   \<and> handle_inactivity 1 error_success started_world = started_world
   \<and> channel_stopped 0 error_channel_stopped started_world
   \<and> handle_expiration 0 error_channel_stopped started_world = started_world
   \<and> channel_stopped 0 error_service_stopped started_world
   \<and> handle_inactivity 0 error_service_stopped started_world = started_world
   \<and> \<not> channel_stopped 0 error_success started_world
   \<and> trace (handle_expiration 0 error_success started_world) =
       trace started_world @ [Proxy_stop 0 error_channel_timeout, Timer_stop Expiration 0,
                              Timer_stop Inactivity 0]
   \<and> m_proxy_stopped (channels (handle_inactivity 0 error_success started_world) 0)"
  using timer_handlers_guarded [of 1 error_success started_world]
    timer_handlers_guarded [of 0 error_channel_stopped started_world]
    timer_handlers_guarded [of 0 error_service_stopped started_world]
    timer_handlers_guarded [of 0 error_success started_world]
  by (simp add: example_defs prim_defs)

text \<open>
  Claim C6. \<^verbatim>\<open>session::start(h)\<close> on a started session calls
  \<^verbatim>\<open>h(operation_failed)\<close> and changes no state, so the session stays started; on a
  stopped session it clears the stopped flag, subscribes \<^verbatim>\<open>handle_stop\<close> to the
  node-wide stop signal, and then calls \<^verbatim>\<open>h(success)\<close>.
\<close>

theorem session_start_once:
  "(\<not> session_stopped w \<longrightarrow>
      session_start (Caller n) w = w\<lparr>trace := trace w @ [Invoked n error_operation_failed]\<rparr>
    \<and> \<not> session_stopped (session_start (Caller n) w))
   \<and> (session_stopped w \<longrightarrow>
      session_start (Caller n) w =
        w\<lparr>the_session := (the_session w)\<lparr>m_stopped := False\<rparr>,
          network_stop_subscribers := network_stop_subscribers w @ [Bind_handle_stop],
          trace := trace w @ [Network_subscribe_stop Bind_handle_stop,
                              Invoked n error_success]\<rparr>)"
  by (simp add: session_start_def emit_def subscribe_stop_def session_stopped_def)

text \<open>The session is started, and started a second time.\<close>

theorem session_start_once_witness:
  "session_stopped created_world
   \<and> \<not> session_stopped (session_start (Caller 3) created_world)
   \<and> network_stop_subscribers (session_start (Caller 3) created_world) = [Bind_handle_stop]
   \<and> trace (session_start (Caller 3) created_world) =
       [Network_subscribe_stop Bind_handle_stop, Invoked 3 error_success]
   \<and> session_start (Caller 4) (session_start (Caller 3) created_world) =
       (session_start (Caller 3) created_world)
         \<lparr>trace := [Network_subscribe_stop Bind_handle_stop, Invoked 3 error_success,
                    Invoked 4 error_operation_failed]\<rparr>"
proof -
  have s: "session_stopped created_world"
    by (simp add: session_stopped_def example_defs)
  have t: "\<not> session_stopped (session_start (Caller 3) created_world)"
    using s by (simp add: session_start_def session_stopped_def subscribe_stop_def emit_def)
  show ?thesis
    using s t session_start_once [of created_world 3]
      session_start_once [of "session_start (Caller 3) created_world" 4]
    by (simp add: example_defs)
qed

text \<open>
  Claim C7. \<^verbatim>\<open>attach_handshake_protocols\<close> attaches and starts one handshake
  protocol: \<^verbatim>\<open>protocol_version_70002\<close> when the negotiated version of the channel is
  at or above \<^verbatim>\<open>bip61\<close>, \<^verbatim>\<open>protocol_version_31402\<close> when it is strictly below.
\<close>

theorem handshake_variant_by_version:
  "(bip61 \<le> m_negotiated_version (channels w c) \<longrightarrow>
      attach_handshake_protocols c h w =
        w\<lparr>trace := trace w @ [Attach Protocol_version_70002 c,
                             Protocol_start Protocol_version_70002 c h]\<rparr>)
   \<and> (m_negotiated_version (channels w c) < bip61 \<longrightarrow>
      attach_handshake_protocols c h w =
        w\<lparr>trace := trace w @ [Attach Protocol_version_31402 c,
                             Protocol_start Protocol_version_31402 c h]\<rparr>)"
  by (simp add: attach_handshake_protocols_def attach_start_def emit_def not_le [symmetric])

text \<open>Channel 0 negotiates 70002, channel 1 negotiates 70001.\<close>

theorem handshake_variant_by_version_witness:
  "bip61 \<le> m_negotiated_version (channels created_world 0)
   \<and> trace (attach_handshake_protocols 0 (Caller 9) created_world) =
       [Attach Protocol_version_70002 0, Protocol_start Protocol_version_70002 0 (Caller 9)]
   \<and> m_negotiated_version (channels created_world 1) < bip61
   \<and> trace (attach_handshake_protocols 1 (Caller 9) created_world) =
       [Attach Protocol_version_31402 1, Protocol_start Protocol_version_31402 1 (Caller 9)]"
  using handshake_variant_by_version [of created_world 0 "Caller 9"]
    handshake_variant_by_version [of created_world 1 "Caller 9"]
  by (simp add: example_defs bip61_def)

text \<open>
  Claim C8. \<^verbatim>\<open>signal_activity\<close> restarts the inactivity timer when the proxy is not
  stopped and does nothing when it is; the expiration timer of every channel, with its
  pending wait, is as before, and no member of a channel other than the inactivity timer
  differs.
\<close>

theorem signal_activity_frame:
  "signal_activity c w =
     (if m_proxy_stopped (channels w c) then w
      else w\<lparr>channels := (channels w)(c := (channels w c)
              \<lparr>m_inactivity := (m_inactivity (channels w c))
                 \<lparr>wait := Some (clock w + duration (m_inactivity (channels w c)),
                               Bind_handle_inactivity c)\<rparr>\<rparr>),
             trace := trace w @ [Timer_start Inactivity c]\<rparr>)
   \<and> m_expiration (channels (signal_activity c w) k) = m_expiration (channels w k)
   \<and> (channels (signal_activity c w) k)\<lparr>m_inactivity := x\<rparr> = (channels w k)\<lparr>m_inactivity := x\<rparr>"
  by (simp add: signal_activity_def prim_defs)

text \<open>Activity on the running channel 0 at time 4, and on the stopped channel 1.\<close>

theorem signal_activity_frame_witness:
  "\<not> m_proxy_stopped (channels started_world 0)
   \<and> wait (m_inactivity (channels started_world 0)) = Some (30, Bind_handle_inactivity 0)
   \<and> wait (m_inactivity (channels (signal_activity 0 started_world) 0)) =
       Some (34, Bind_handle_inactivity 0)
   \<and> wait (m_expiration (channels (signal_activity 0 started_world) 0)) =
       Some (90, Bind_handle_expiration 0)
   \<and> m_proxy_stopped (channels started_world 1)
   \<and> signal_activity 1 started_world = started_world"
  using signal_activity_frame [of 0 started_world 0] signal_activity_frame [of 1 started_world 1]
  by (simp add: example_defs prim_defs)

text \<open>
  Claim C9. \<^verbatim>\<open>blacklisted(a)\<close> is true exactly when an entry of the configured
  blacklists has the IP address of \<open>a\<close>; the port of \<open>a\<close> does not matter. The
  function is a \<^verbatim>\<open>const\<close> member that returns a \<^verbatim>\<open>bool\<close>: it has no state to return.
\<close>

theorem blacklisted_by_ip:
  "(blacklisted s a \<longleftrightarrow> (\<exists>blocked \<in> set (blacklists (m_settings s)). ip blocked = ip a))
   \<and> blacklisted s (a\<lparr>port := p\<rparr>) = blacklisted s a"
  by (auto simp add: blacklisted_def list_ex_iff intro: sym)

text \<open>An address that is blocked under another port, and one that is not blocked.\<close>

theorem blacklisted_by_ip_witness:
  "blacklisted (the_session created_world) \<lparr>ip = 11, port = 1\<rparr>
   \<and> \<lparr>ip = 11, port = 18333\<rparr> \<in> set (blacklists (m_settings (the_session created_world)))
   \<and> \<not> blacklisted (the_session created_world) \<lparr>ip = 12, port = 8333\<rparr>"
  using blacklisted_by_ip [of "the_session created_world" "\<lparr>ip = 11, port = 1\<rparr>" 1]
    blacklisted_by_ip [of "the_session created_world" "\<lparr>ip = 12, port = 8333\<rparr>" 1]
  by (simp add: example_defs)

subsection \<open>Nonces\<close>

lemma nonce_emit [simp]: "m_nonce (channels (emit e w) c) = m_nonce (channels w c)"
  by (simp add: emit_def)

lemma nonce_prims [simp]:
  "m_nonce (channels (start_expiration k w) c) = m_nonce (channels w c)"
  "m_nonce (channels (start_inactivity k w) c) = m_nonce (channels w c)"
  "m_nonce (channels (proxy_stop k ec w) c) = m_nonce (channels w c)"
  "m_nonce (channels (proxy_subscribe_stop k h w) c) = m_nonce (channels w c)"
  "m_nonce (channels (handle_stop ec w) c) = m_nonce (channels w c)"
  "m_nonce (channels (snd (network_store k w)) c) = m_nonce (channels w c)"
  "m_nonce (channels (network_remove k w) c) = m_nonce (channels w c)"
  "m_nonce (channels (attach_handshake_protocols k h w) c) = m_nonce (channels w c)"
  by (simp_all add: prim_defs handle_stop_def network_store_def network_remove_def
      attach_handshake_protocols_def attach_start_def)

lemma nonce_timer_handlers [simp]:
  "m_nonce (channels (handle_expiration k ec w) c) = m_nonce (channels w c)"
  "m_nonce (channels (handle_inactivity k ec w) c) = m_nonce (channels w c)"
  by (simp_all add: handle_expiration_def handle_inactivity_def)

lemma nonce_invoke: "m_nonce (channels (invoke h ec w) c) = m_nonce (channels w c)"
  by (induction h arbitrary: ec w) simp_all

lemma nonce_channel_start:
  "m_nonce (channels (channel_start k h w) c) = m_nonce (channels w c)"
  by (simp add: channel_start_def proxy_start_def nonce_invoke update_channel_def)

lemma drawn_range:
  "1 \<le> fst (pseudo_random_next 1 max_uint64 w)
   \<and> fst (pseudo_random_next 1 max_uint64 w) \<le> max_uint64"
  by (simp add: pseudo_random_next_def max_uint64_def less_Suc_eq_le [symmetric])

lemma nonce_start_channel:
  "m_nonce (channels (start_channel c h w) c) = of_nat (fst (pseudo_random_next 1 max_uint64 w))"
  by (simp add: start_channel_def Let_def nonce_channel_start set_nonce_def
      update_channel_def pseudo_random_next_def set_notify_def)

text \<open>
  Claim C10. After \<^verbatim>\<open>start_channel\<close>, and so after \<^verbatim>\<open>register_channel\<close> on a
  session that is not stopped, the nonce of the channel is a value of the range from 1
  to \<^verbatim>\<open>max_uint64\<close>, hence not 0, and the handlers of the pipeline leave it so; a
  channel is constructed with the nonce 0.
\<close>

theorem started_channel_nonce_positive:
  "m_nonce (channels (start_channel c h w) c) \<noteq> 0
   \<and> 1 \<le> unat (m_nonce (channels (start_channel c h w) c))
   \<and> unat (m_nonce (channels (start_channel c h w) c)) \<le> max_uint64
   \<and> (\<not> session_stopped w \<longrightarrow> m_nonce (channels (register_channel c hs hp w) c) \<noteq> 0)
   \<and> m_nonce (channels (invoke g ec (start_channel c h w)) c) \<noteq> 0
   \<and> m_nonce (channel_ctor a v x y) = 0
   \<and> m_nonce (channels (initial_world e) c) = 0"
proof -
  let ?r = "fst (pseudo_random_next 1 max_uint64 w)"
  have r: "1 \<le> ?r" "?r \<le> max_uint64"
    using drawn_range [of w] by simp_all
  then have lt: "?r < 2 ^ LENGTH(64)"
    by (simp add: max_uint64_def)
  have u: "unat (of_nat ?r :: 64 word) = ?r"
    using lt by (simp add: unat_of_nat)
  have nz: "(of_nat ?r :: 64 word) \<noteq> 0"
    using r(1) lt by (intro of_nat_neq_0) simp_all
  show ?thesis
    using r u nz
    by (simp add: nonce_start_channel nonce_invoke register_channel_def channel_ctor_def
        proxy.defs channel.defs initial_world_def)
qed

text \<open>
  Channel 2, as constructed and after its registration; the generator's first value here
  is mapped to \<^verbatim>\<open>max_uint64\<close>.
\<close>

theorem started_channel_nonce_positive_witness:
  "m_nonce (channels created_world 2) = 0
   \<and> \<not> session_stopped (session_start (Caller 3) created_world)
   \<and> m_nonce (channels (register_channel 2 (Caller 5) (Caller 6)
        (session_start (Caller 3) created_world)) 2) \<noteq> 0
   \<and> m_nonce (channels (start_channel 2 (Caller 5) created_world) 2) = 18446744073709551615"
proof -
  have t: "\<not> session_stopped (session_start (Caller 3) created_world)"
    by (simp add: session_start_def session_stopped_def subscribe_stop_def emit_def example_defs)
  show ?thesis
    using t started_channel_nonce_positive [of 2 "Caller 5"
        "session_start (Caller 3) created_world" "Caller 5" "Caller 6"]
    by (simp add: nonce_start_channel pseudo_random_next_def max_uint64_def example_defs)
qed

end
